theory Spec2Isabelle
  imports Complex_Main "HOL-Library.Word"
begin

section \<open>Foucault pendulum game: embedding of main.go\<close>

text \<open>
  The Go types are embedded as follows: \<open>float64\<close> is \<open>real\<close> (exact arithmetic, no
  rounding, no NaN), \<open>uint\<close>, \<open>uint64\<close>, \<open>int\<close> and \<open>int64\<close> are \<open>64 word\<close> (the widths of
  a 64-bit target; arithmetic wraps and \<open>sint\<close> gives the signed reading), slices of
  pointers to structs that are never shared are lists of records. Logging, audio,
  rendering and the player identifiers do not influence the simulation state and are
  left out.
\<close>

subsection \<open>Constants\<close>

definition screenWidth :: real where "screenWidth = 640"
definition screenHeight :: real where "screenHeight = 480"
definition circleX :: real where "circleX = screenWidth / 2"
definition circleY :: real where "circleY = screenHeight / 2"
definition circleVerticalScale :: real where "circleVerticalScale = 7 / 10"
definition pendulumLength :: real where "pendulumLength = 955"
definition pendulumAmplitude :: real where "pendulumAmplitude = 220"
definition pendulumR :: real where "pendulumR = 10"
definition gravity :: real where "gravity = (98 / 10) / 60"

subsection \<open>Polar coordinates\<close>

text \<open>
  \<open>math.Atan2\<close> of the Go standard library, on real arguments: the angle in \<open>(-\<pi>, \<pi>]\<close> of
  the point \<open>(x, y)\<close>, and \<open>0\<close> at the origin.
\<close>

definition atan2 :: "real \<Rightarrow> real \<Rightarrow> real" where
  "atan2 y x =
     (if 0 < x then arctan (y / x)
      else if x < 0 then (if 0 \<le> y then arctan (y / x) + pi else arctan (y / x) - pi)
      else if 0 < y then pi / 2
      else if y < 0 then - (pi / 2)
      else 0)"

record PolarCoordinates =
  pc_r :: real
  pc_theta :: real

definition toScreen :: "PolarCoordinates \<Rightarrow> real \<times> real" where
  "toScreen p =
     (let x = pc_r p * cos (pc_theta p);
          y = pc_r p * sin (pc_theta p)
      in (x + circleX, y * circleVerticalScale + circleY))"

definition fromScreen :: "real \<Rightarrow> real \<Rightarrow> PolarCoordinates" where
  "fromScreen x y =
     (let x1 = x - circleX;
          y1 = y - circleY;
          y2 = y1 / circleVerticalScale
      in \<lparr>pc_r = sqrt (x1 * x1 + y2 * y2), pc_theta = atan2 y2 x1\<rparr>)"


subsection \<open>Entities\<close>

record Mover =
  mv_delay :: "64 word"
  mv_delta :: real

text \<open>\<open>Mover.move\<close>: the test is \<open>int(ticks) - m.delay > 0\<close> on signed 64-bit integers.\<close>

definition move :: "Mover \<Rightarrow> 64 word \<Rightarrow> PolarCoordinates \<Rightarrow> PolarCoordinates" where
  "move m ticks p =
     (if 0 < sint (ticks - mv_delay m)
      then (case toScreen p of (x, y) \<Rightarrow> fromScreen (x + mv_delta m) y)
      else p)"

record Coin =
  coin_ticks :: "64 word"
  coin_pos :: PolarCoordinates
  coin_mover :: Mover
  coin_r :: real
  coin_hit :: bool

record CoinHitEffect =
  eff_ticks :: "64 word"
  eff_pos :: PolarCoordinates
  eff_gain :: "64 word"

record Enemy =
  enemy_ticks :: "64 word"
  enemy_pos :: PolarCoordinates
  enemy_mover :: Mover
  enemy_r :: real

subsection \<open>The game state\<close>

datatype GameMode = GameModeTitle | GameModePlaying | GameModeGameOver

text \<open>
  The generator of \<open>math/rand\<close> is library code: it is a parameter of the model, a state
  type \<open>'r\<close> with the four operations the game calls, each returning the drawn value and
  the next generator state. \<open>Int\<close> is non-negative.
\<close>

record 'r rand_ops =
  rand_New :: "64 word \<Rightarrow> 'r"
  rand_Int :: "'r \<Rightarrow> nat \<times> 'r"
  rand_Float64 :: "'r \<Rightarrow> real \<times> 'r"
  rand_NormFloat64 :: "'r \<Rightarrow> real \<times> 'r"

text \<open>The sky image is kept as the list of its stars: centre and radius of each circle.\<close>

record 'r Game =
  fixedRandomSeed :: "64 word"
  random :: 'r
  mode :: GameMode
  ticksFromModeStart :: "64 word"
  score :: "64 word"
  hold :: bool
  pendulumX :: real
  pendulumVx :: real
  pendulumRotation :: real
  skyImg :: "(real \<times> real \<times> real) list"
  coins :: "Coin list"
  coinHitEffects :: "CoinHitEffect list"
  enemies :: "Enemy list"
  lastPendulumTicks :: "64 word"

text \<open>What one call of \<open>Update\<close> reads from outside: the two touch edges and the clock.\<close>

record Env =
  isJustTouched :: bool
  isJustReleased :: bool
  unixNow :: "64 word"

definition setNextMode :: "GameMode \<Rightarrow> 'r Game \<Rightarrow> 'r Game" where
  "setNextMode m g = g\<lparr>mode := m, ticksFromModeStart := 0\<rparr>"

subsection \<open>Initialisation\<close>

text \<open>The 500 stars of the sky: two \<open>Float64\<close> draws and one \<open>NormFloat64\<close> draw each.\<close>

fun drawStars :: "'r rand_ops \<Rightarrow> real \<Rightarrow> nat \<Rightarrow> 'r \<Rightarrow> (real \<times> real \<times> real) list \<times> 'r" where
  "drawStars ops len 0 s = ([], s)"
| "drawStars ops len (Suc n) s =
     (case rand_Float64 ops s of (a, s1) \<Rightarrow>
      case rand_Float64 ops s1 of (b, s2) \<Rightarrow>
      case rand_NormFloat64 ops s2 of (c, s3) \<Rightarrow>
      case drawStars ops len n s3 of (stars, s4) \<Rightarrow>
        ((len * a, len * b, max (1 + (1 / 2) * c) (1 / 2)) # stars, s4))"

definition initialize :: "'r rand_ops \<Rightarrow> 64 word \<Rightarrow> 'r Game \<Rightarrow> 'r Game" where
  "initialize ops now g =
     (let seed = (if fixedRandomSeed g \<noteq> 0 then fixedRandomSeed g else now);
          g1 = g\<lparr>random := rand_New ops seed, score := 0, hold := False,
                 pendulumX := 0, pendulumVx := 0, pendulumRotation := 0, skyImg := [],
                 coins := [], coinHitEffects := [], enemies := [], lastPendulumTicks := 0\<rparr>;
          skyImgLength = max screenWidth screenHeight * (12 / 10)
      in case drawStars ops skyImgLength 500 (random g1) of (stars, s) \<Rightarrow>
           setNextMode GameModeTitle (g1\<lparr>random := s, skyImg := stars\<rparr>))"

subsection \<open>One tick in Playing mode\<close>

text \<open>Lines 245 to 250: the hold flag follows the touch edges.\<close>

definition holdInput :: "Env \<Rightarrow> 'r Game \<Rightarrow> 'r Game" where
  "holdInput inp g =
     (let g1 = (if isJustTouched inp then g\<lparr>hold := True\<rparr> else g)
      in if isJustReleased inp then g1\<lparr>hold := False\<rparr> else g1)"

text \<open>Lines 252 to 257: the rotation of the frame while held.\<close>

definition rotateFrame :: "'r Game \<Rightarrow> 'r Game" where
  "rotateFrame g =
     (if hold g
      then (let g1 = g\<lparr>pendulumRotation := pendulumRotation g + pi / 800\<rparr>
            in if pendulumRotation g1 > pi * 2
               then g1\<lparr>pendulumRotation := pendulumRotation g1 - pi * 2\<rparr>
               else g1)
      else g)"

text \<open>Lines 259 and 260: one Euler step of the swing.\<close>

definition swing :: "'r Game \<Rightarrow> 'r Game" where
  "swing g =
     (let g1 = g\<lparr>pendulumVx := pendulumVx g + - gravity / pendulumLength * pendulumX g\<rparr>
      in g1\<lparr>pendulumX := pendulumX g1 + pendulumVx g1\<rparr>)"

text \<open>Lines 262 to 266: the reset every 480 ticks, on unsigned 64-bit tick counters.\<close>

definition reinject :: "'r Game \<Rightarrow> 'r Game" where
  "reinject g =
     (if (ticksFromModeStart g - lastPendulumTicks g) mod 480 = 0
      then g\<lparr>pendulumVx := 0, pendulumX := pendulumAmplitude,
             lastPendulumTicks := ticksFromModeStart g\<rparr>
      else g)"

definition physics :: "Env \<Rightarrow> 'r Game \<Rightarrow> 'r Game" where
  "physics inp g = reinject (swing (rotateFrame (holdInput inp g)))"

text \<open>Lines 268 to 273.\<close>

definition enemyAppearanceRate :: "64 word \<Rightarrow> nat" where
  "enemyAppearanceRate t =
     (if t < 1800 then 180
      else if t < 2400 then 120
      else if t < 3000 then 100
      else if t < 3600 then 60
      else 40)"

text \<open>
  Lines 279 to 285: the rejection loop drawing the vertical coordinate. Nothing bounds the
  number of draws, so the loop is a partial function: \<open>None\<close> is the run that never leaves it.
\<close>

partial_function (option) sampleY :: "'r rand_ops \<Rightarrow> 'r \<Rightarrow> (real \<times> 'r) option" where
  "sampleY ops s =
     (case rand_Float64 ops s of (u, s1) \<Rightarrow>
        if \<bar>((screenHeight - 150) * u + 110) - circleY\<bar> > 30
        then Some ((screenHeight - 150) * u + 110, s1)
        else sampleY ops s1)"

text \<open>Lines 290 to 300: the loop \<open>for i := 0; i < 6; i++\<close> appending the coins.\<close>

function spawnCoins :: "nat \<Rightarrow> PolarCoordinates \<Rightarrow> real \<Rightarrow> Coin list \<Rightarrow> Coin list" where
  "spawnCoins i pos moverDelta cs =
     (if i < 6
      then spawnCoins (i + 1) pos moverDelta
             (cs @ [\<lparr>coin_ticks = 0, coin_pos = pos,
                      coin_mover = \<lparr>mv_delay = (of_nat i + 1) * 20, mv_delta = moverDelta\<rparr>,
                      coin_r = (if i < 3 then 10 else 7), coin_hit = False\<rparr>])
      else cs)"
  by pat_completeness auto
termination
  by (relation "measure (\<lambda>(i, pos, moverDelta, cs). 6 - i)") auto

text \<open>
  Lines 275 to 285: the draws of the spawner at tick \<open>t\<close>. The result is the side \<open>x\<close>, the
  height \<open>y\<close> and the mover delta of a spawn event (or no event), with the next generator.
\<close>

definition spawnDraw :: "'r rand_ops \<Rightarrow> 64 word \<Rightarrow> 'r \<Rightarrow> ((real \<times> real \<times> real) option \<times> 'r) option" where
  "spawnDraw ops t s =
     (case rand_Int ops s of (n, s1) \<Rightarrow>
        if n mod enemyAppearanceRate t = 0
        then (case rand_Int ops s1 of (k, s2) \<Rightarrow>
                let x = (if k mod 2 = 0 then - 50 else screenWidth + 50);
                    moverDelta = (if x < 0 then 1 else - 1)
                in case sampleY ops s2 of
                     None \<Rightarrow> None
                   | Some (y, s3) \<Rightarrow> Some (Some (x, y, moverDelta), s3))
        else Some (None, s1))"

text \<open>Lines 287 to 310: the entities of a spawn event.\<close>

definition spawn :: "'r rand_ops \<Rightarrow> 'r Game \<Rightarrow> 'r Game option" where
  "spawn ops g =
     (case spawnDraw ops (ticksFromModeStart g) (random g) of
        None \<Rightarrow> None
      | Some (None, s) \<Rightarrow> Some (g\<lparr>random := s\<rparr>)
      | Some (Some (x, y, moverDelta), s) \<Rightarrow>
          let pos = fromScreen x y
          in Some (g\<lparr>random := s,
                     coins := spawnCoins 0 pos moverDelta (coins g),
                     enemies := enemies g @
                       [\<lparr>enemy_ticks = 0, enemy_pos = pos,
                         enemy_mover = \<lparr>mv_delay = 0, mv_delta = moverDelta\<rparr>,
                         enemy_r = 10\<rparr>]\<rparr>))"

text \<open>Lines 314 to 316 and 344 to 346: the test of the bob against one entity.\<close>

definition hitTest :: "'r Game \<Rightarrow> PolarCoordinates \<Rightarrow> real \<Rightarrow> bool" where
  "hitTest g p rad =
     ((pendulumX g * cos (pendulumRotation g) - pc_r p * cos (pc_theta p))\<^sup>2 +
      (pendulumX g * sin (pendulumRotation g) - pc_r p * sin (pc_theta p))\<^sup>2
        < (pendulumR + rad)\<^sup>2)"

definition coinGain :: "real \<Rightarrow> 64 word" where
  "coinGain rad = (if rad \<le> 5 then 100 else if rad \<le> 7 then 300 else 1000)"

text \<open>Lines 313 to 337: the body of the loop over the coins, then the loop.\<close>

definition coinBody :: "'r Game \<Rightarrow> Coin \<Rightarrow> Coin \<times> 'r Game" where
  "coinBody g c =
     (case (if hitTest g (coin_pos c) (coin_r c)
            then (c\<lparr>coin_hit := True\<rparr>,
                  g\<lparr>coinHitEffects := coinHitEffects g @
                       [\<lparr>eff_ticks = 0,
                         eff_pos = \<lparr>pc_r = pc_r (coin_pos c), pc_theta = pc_theta (coin_pos c)\<rparr>,
                         eff_gain = coinGain (coin_r c)\<rparr>],
                     score := score g + coinGain (coin_r c)\<rparr>)
            else (c, g)) of
        (c1, g1) \<Rightarrow>
          let c2 = c1\<lparr>coin_ticks := coin_ticks c1 + 1\<rparr>
          in (c2\<lparr>coin_pos := move (coin_mover c2) (coin_ticks c2) (coin_pos c2)\<rparr>, g1))"

fun coinsLoop :: "'r Game \<Rightarrow> Coin list \<Rightarrow> Coin list \<times> 'r Game" where
  "coinsLoop g [] = ([], g)"
| "coinsLoop g (c # cs) =
     (case coinBody g c of (c', g1) \<Rightarrow>
      case coinsLoop g1 cs of (cs', g2) \<Rightarrow> (c' # cs', g2))"

definition coinsPhase :: "'r Game \<Rightarrow> 'r Game" where
  "coinsPhase g = (case coinsLoop g (coins g) of (cs, g1) \<Rightarrow> g1\<lparr>coins := cs\<rparr>)"

text \<open>Lines 339 to 341.\<close>

definition effectsPhase :: "'r Game \<Rightarrow> 'r Game" where
  "effectsPhase g =
     g\<lparr>coinHitEffects := map (\<lambda>e. e\<lparr>eff_ticks := eff_ticks e + 1\<rparr>) (coinHitEffects g)\<rparr>"

text \<open>Lines 343 to 364: the loop over the enemies, left by \<open>break\<close> at the first hit.\<close>

definition enemyAdvance :: "Enemy \<Rightarrow> Enemy" where
  "enemyAdvance e =
     (let e1 = e\<lparr>enemy_ticks := enemy_ticks e + 1\<rparr>
      in e1\<lparr>enemy_pos := move (enemy_mover e1) (enemy_ticks e1) (enemy_pos e1)\<rparr>)"

fun enemiesLoop :: "'r Game \<Rightarrow> Enemy list \<Rightarrow> Enemy list \<times> 'r Game" where
  "enemiesLoop g [] = ([], g)"
| "enemiesLoop g (e # es) =
     (if hitTest g (enemy_pos e) (enemy_r e)
      then (e # es, setNextMode GameModeGameOver g)
      else (case enemiesLoop g es of (es', g1) \<Rightarrow> (enemyAdvance e # es', g1)))"

definition enemiesPhase :: "'r Game \<Rightarrow> 'r Game" where
  "enemiesPhase g = (case enemiesLoop g (enemies g) of (es, g1) \<Rightarrow> g1\<lparr>enemies := es\<rparr>)"

text \<open>Lines 366 to 378: the three filters.\<close>

definition onScreen :: "PolarCoordinates \<Rightarrow> bool" where
  "onScreen p =
     (case toScreen p of (x, y) \<Rightarrow>
        x > - 100 \<and> x < screenWidth + 100 \<and> y > - 100 \<and> y < screenHeight + 100)"

definition prune :: "'r Game \<Rightarrow> 'r Game" where
  "prune g =
     g\<lparr>coins := filter (\<lambda>c. onScreen (coin_pos c) \<and> \<not> coin_hit c) (coins g),
       coinHitEffects := filter (\<lambda>e. eff_ticks e < 60) (coinHitEffects g),
       enemies := filter (\<lambda>e. onScreen (enemy_pos e)) (enemies g)\<rparr>"

text \<open>The state before the filters, and the whole Playing case.\<close>

definition collide :: "'r rand_ops \<Rightarrow> Env \<Rightarrow> 'r Game \<Rightarrow> 'r Game option" where
  "collide ops inp g =
     (case spawn ops (physics inp g) of
        None \<Rightarrow> None
      | Some g1 \<Rightarrow> Some (enemiesPhase (effectsPhase (coinsPhase g1))))"

definition UpdatePlaying :: "'r rand_ops \<Rightarrow> Env \<Rightarrow> 'r Game \<Rightarrow> 'r Game option" where
  "UpdatePlaying ops inp g =
     (case collide ops inp g of None \<Rightarrow> None | Some g1 \<Rightarrow> Some (prune g1))"

subsection \<open>Update\<close>

definition Update :: "'r rand_ops \<Rightarrow> Env \<Rightarrow> 'r Game \<Rightarrow> 'r Game option" where
  "Update ops inp g =
     (let g0 = g\<lparr>ticksFromModeStart := ticksFromModeStart g + 1\<rparr>
      in case mode g0 of
           GameModeTitle \<Rightarrow>
             Some (if isJustTouched inp
                   then setNextMode GameModePlaying (g0\<lparr>pendulumX := pendulumAmplitude\<rparr>)
                   else g0)
         | GameModePlaying \<Rightarrow> UpdatePlaying ops inp g0
         | GameModeGameOver \<Rightarrow>
             Some (if ticksFromModeStart g0 > 60 \<and> isJustTouched inp
                   then initialize ops (unixNow inp) g0
                   else g0))"

subsection \<open>Runs\<close>

text \<open>A run is one \<open>Update\<close> per element of the input sequence.\<close>

fun run :: "'r rand_ops \<Rightarrow> Env list \<Rightarrow> 'r Game \<Rightarrow> 'r Game option" where
  "run ops [] g = Some g"
| "run ops (inp # inps) g =
     (case Update ops inp g of None \<Rightarrow> None | Some g1 \<Rightarrow> run ops inps g1)"

text \<open>
  The spawn event of one tick: the tick counter read by the spawner (it runs after the
  increment) and what it drew, or \<open>None\<close> when the game is not in Playing mode or nothing
  is spawned.
\<close>

definition spawnEvent :: "'r rand_ops \<Rightarrow> 'r Game \<Rightarrow> (64 word \<times> real \<times> real \<times> real) option" where
  "spawnEvent ops g =
     (if mode g = GameModePlaying
      then (case spawnDraw ops (ticksFromModeStart g + 1) (random g) of
              Some (Some ev, s) \<Rightarrow> Some (ticksFromModeStart g + 1, ev)
            | _ \<Rightarrow> None)
      else None)"

fun spawnTrace :: "'r rand_ops \<Rightarrow> Env list \<Rightarrow> 'r Game \<Rightarrow> (64 word \<times> real \<times> real \<times> real) option list" where
  "spawnTrace ops [] g = []"
| "spawnTrace ops (inp # inps) g =
     spawnEvent ops g #
       (case Update ops inp g of None \<Rightarrow> [] | Some g1 \<Rightarrow> spawnTrace ops inps g1)"

subsection \<open>Two small generators for concrete runs\<close>

text \<open>A generator whose every draw is the same, and one that counts up from its seed.\<close>

definition constRand :: "nat \<Rightarrow> real \<Rightarrow> unit rand_ops" where
  "constRand n u =
     \<lparr>rand_New = (\<lambda>seed. ()), rand_Int = (\<lambda>s. (n, s)),
      rand_Float64 = (\<lambda>s. (u, s)), rand_NormFloat64 = (\<lambda>s. (0, s))\<rparr>"

definition countRand :: "nat rand_ops" where
  "countRand =
     \<lparr>rand_New = (\<lambda>seed. unat seed), rand_Int = (\<lambda>s. (s, Suc s)),
      rand_Float64 = (\<lambda>s. (3 / 4, s)), rand_NormFloat64 = (\<lambda>s. (0, s))\<rparr>"

definition idle :: Env where
  "idle = \<lparr>isJustTouched = False, isJustReleased = False, unixNow = 0\<rparr>"

definition press :: Env where
  "press = \<lparr>isJustTouched = True, isJustReleased = False, unixNow = 0\<rparr>"

text \<open>A state in Playing mode at rest, with the given tick counter, displacement and entities.\<close>

definition playingGame :: "64 word \<Rightarrow> real \<Rightarrow> Coin list \<Rightarrow> Enemy list \<Rightarrow> unit Game" where
  "playingGame t x cs es =
     \<lparr>fixedRandomSeed = 0, random = (), mode = GameModePlaying, ticksFromModeStart = t,
      score = 0, hold = False, pendulumX = x, pendulumVx = 0, pendulumRotation = 0,
      skyImg = [], coins = cs, coinHitEffects = [], enemies = es, lastPendulumTicks = 0\<rparr>"

text \<open>
  The hit condition in the words of the specification: the squared Euclidean distance
  between the bob and the entity, both as points of the unscaled polar plane, against the
  square of the sum of the two radii.
\<close>

definition planePoint :: "real \<Rightarrow> real \<Rightarrow> real \<times> real" where
  "planePoint rad ang = (rad * cos ang, rad * sin ang)"

definition squaredDistance :: "real \<times> real \<Rightarrow> real \<times> real \<Rightarrow> real" where
  "squaredDistance a b = (fst a - fst b)\<^sup>2 + (snd a - snd b)\<^sup>2"

definition specHit :: "'r Game \<Rightarrow> PolarCoordinates \<Rightarrow> real \<Rightarrow> bool" where
  "specHit g p rad =
     (squaredDistance (planePoint (pendulumX g) (pendulumRotation g))
        (planePoint (pc_r p) (pc_theta p)) < (pendulumR + rad)\<^sup>2)"

text \<open>The screen region of the specification: a margin of 100 around the 640 by 480 screen.\<close>

definition withinMargin :: "real \<times> real \<Rightarrow> bool" where
  "withinMargin q = (- 100 < fst q \<and> fst q < 640 + 100 \<and> - 100 < snd q \<and> snd q < 480 + 100)"

text \<open>An enemy on the rim of the field at angle 0, and a large coin at the same place.\<close>

definition rimEnemy :: Enemy where
  "rimEnemy =
     \<lparr>enemy_ticks = 0, enemy_pos = \<lparr>pc_r = 220, pc_theta = 0\<rparr>,
      enemy_mover = \<lparr>mv_delay = 0, mv_delta = 1\<rparr>, enemy_r = 10\<rparr>"

definition rimCoin :: Coin where
  "rimCoin =
     \<lparr>coin_ticks = 0, coin_pos = \<lparr>pc_r = 220, pc_theta = 0\<rparr>,
      coin_mover = \<lparr>mv_delay = 20, mv_delta = 1\<rparr>, coin_r = 10, coin_hit = False\<rparr>"

text \<open>An enemy and a coin at the centre of the field, and a coin far off the right edge.\<close>

definition centreEnemy :: Enemy where
  "centreEnemy =
     \<lparr>enemy_ticks = 0, enemy_pos = \<lparr>pc_r = 0, pc_theta = 0\<rparr>,
      enemy_mover = \<lparr>mv_delay = 0, mv_delta = 1\<rparr>, enemy_r = 10\<rparr>"

definition centreCoin :: Coin where
  "centreCoin =
     \<lparr>coin_ticks = 0, coin_pos = \<lparr>pc_r = 0, pc_theta = 0\<rparr>,
      coin_mover = \<lparr>mv_delay = 20, mv_delta = 1\<rparr>, coin_r = 7, coin_hit = False\<rparr>"

definition farCoin :: Coin where
  "farCoin =
     \<lparr>coin_ticks = 0, coin_pos = \<lparr>pc_r = 500, pc_theta = 0\<rparr>,
      coin_mover = \<lparr>mv_delay = 20, mv_delta = 1\<rparr>, coin_r = 7, coin_hit = False\<rparr>"

text \<open>
  The state \<open>main\<close> builds before it calls \<open>initialize\<close>: the configured seed, every other
  field at its zero value (the generator is not yet created; here it is the counter 0).
\<close>

definition bootGame :: "64 word \<Rightarrow> nat Game" where
  "bootGame seed =
     \<lparr>fixedRandomSeed = seed, random = 0, mode = GameModeTitle, ticksFromModeStart = 0,
      score = 0, hold = False, pendulumX = 0, pendulumVx = 0, pendulumRotation = 0,
      skyImg = [], coins = [], coinHitEffects = [], enemies = [], lastPendulumTicks = 0\<rparr>"

definition atClock :: "64 word \<Rightarrow> Env \<Rightarrow> Env" where
  "atClock now inp = inp\<lparr>unixNow := now\<rparr>"





lemmas consts_defs = screenWidth_def screenHeight_def circleX_def circleY_def
  circleVerticalScale_def pendulumLength_def pendulumAmplitude_def pendulumR_def gravity_def

section \<open>What each phase leaves unchanged\<close>

lemma hitTest_frame [simp]:
  "hitTest (g\<lparr>coinHitEffects := es, score := sc\<rparr>) p rad = hitTest g p rad"
  by (simp add: hitTest_def)

lemma coinBody_frame:
  "\<exists>effs sc. snd (coinBody g c) = g\<lparr>coinHitEffects := effs, score := sc\<rparr>"
proof (cases "hitTest g (coin_pos c) (coin_r c)")
  case True
  then show ?thesis by (simp add: coinBody_def Let_def) blast
next
  case False
  have "\<exists>effs sc. g = g\<lparr>coinHitEffects := effs, score := sc\<rparr>"
    by (rule exI [of _ "coinHitEffects g"], rule exI [of _ "score g"]) simp
  then show ?thesis using False by (simp add: coinBody_def Let_def)
qed

lemma coinsLoop_frame:
  "\<exists>effs sc. snd (coinsLoop g cs) = g\<lparr>coinHitEffects := effs, score := sc\<rparr>"
proof (induction cs arbitrary: g)
  case Nil
  have "\<exists>effs sc. g = g\<lparr>coinHitEffects := effs, score := sc\<rparr>"
    by (rule exI [of _ "coinHitEffects g"], rule exI [of _ "score g"]) simp
  then show ?case by simp
next
  case (Cons c cs)
  obtain c' g1 where b: "coinBody g c = (c', g1)" by (cases "coinBody g c")
  obtain cs' g2 where l: "coinsLoop g1 cs = (cs', g2)" by (cases "coinsLoop g1 cs")
  obtain e1 s1 where f1: "g1 = g\<lparr>coinHitEffects := e1, score := s1\<rparr>"
    using coinBody_frame [of g c] b by auto
  obtain e2 s2 where f2: "g2 = g1\<lparr>coinHitEffects := e2, score := s2\<rparr>"
    using Cons.IH [of g1] l by auto
  have "g2 = g\<lparr>coinHitEffects := e2, score := s2\<rparr>"
    by (simp add: f1 f2)
  then show ?case using b l by (simp) blast
qed

lemma coinsPhase_frame:
  "\<exists>cs effs sc. coinsPhase g = g\<lparr>coins := cs, coinHitEffects := effs, score := sc\<rparr>"
proof -
  obtain cs g1 where l: "coinsLoop g (coins g) = (cs, g1)" by (cases "coinsLoop g (coins g)")
  obtain e1 s1 where "g1 = g\<lparr>coinHitEffects := e1, score := s1\<rparr>"
    using coinsLoop_frame [of g "coins g"] l by auto
  then have "coinsPhase g = g\<lparr>coins := cs, coinHitEffects := e1, score := s1\<rparr>"
    using l by (simp add: coinsPhase_def)
  then show ?thesis by blast
qed

lemma enemiesLoop_frame:
  "snd (enemiesLoop g es) = g \<or> snd (enemiesLoop g es) = setNextMode GameModeGameOver g"
  by (induction es) (auto split: prod.splits)

lemma enemiesPhase_frame:
  "\<exists>es. enemiesPhase g = g\<lparr>enemies := es\<rparr> \<or>
        enemiesPhase g = g\<lparr>mode := GameModeGameOver, ticksFromModeStart := 0, enemies := es\<rparr>"
proof -
  obtain es g1 where l: "enemiesLoop g (enemies g) = (es, g1)" by (cases "enemiesLoop g (enemies g)")
  then have "g1 = g \<or> g1 = setNextMode GameModeGameOver g"
    using enemiesLoop_frame [of g "enemies g"] by simp
  then show ?thesis using l by (auto simp: enemiesPhase_def setNextMode_def)
qed

lemma spawn_frame:
  assumes "spawn ops g = Some g'"
  shows "\<exists>s cs es. g' = g\<lparr>random := s, coins := cs, enemies := es\<rparr>"
proof (cases "spawnDraw ops (ticksFromModeStart g) (random g)")
  case None
  then show ?thesis using assms by (simp add: spawn_def)
next
  case (Some d)
  obtain ev s where d: "d = (ev, s)" by (cases d)
  show ?thesis
  proof (cases ev)
    case None
    then have "g' = g\<lparr>random := s\<rparr>"
      using assms Some d by (simp add: spawn_def)
    then have "g' = g\<lparr>random := s, coins := coins g, enemies := enemies g\<rparr>"
      by simp
    then show ?thesis by blast
  next
    case (Some t)
    obtain x y dl where "t = (x, y, dl)" by (cases t)
    then show ?thesis
      using assms \<open>spawnDraw ops (ticksFromModeStart g) (random g) = Some d\<close> d Some
      by (simp add: spawn_def Let_def) blast
  qed
qed

lemma physics_reset:
  assumes "(ticksFromModeStart g - lastPendulumTicks g) mod 480 = 0"
  shows "pendulumVx (physics inp g) = 0 \<and> pendulumX (physics inp g) = 220 \<and>
         lastPendulumTicks (physics inp g) = ticksFromModeStart g"
  using assms
  by (simp add: physics_def reinject_def swing_def rotateFrame_def holdInput_def Let_def
      pendulumAmplitude_def)

lemma physics_ticks [simp]: "ticksFromModeStart (physics inp g) = ticksFromModeStart g"
  by (simp add: physics_def reinject_def swing_def rotateFrame_def holdInput_def Let_def)

lemma physics_mode [simp]: "mode (physics inp g) = mode g"
  by (simp add: physics_def reinject_def swing_def rotateFrame_def holdInput_def Let_def)

lemma late_phases_pendulum:
  "pendulumVx (prune (enemiesPhase (effectsPhase (coinsPhase g)))) = pendulumVx g \<and>
   pendulumX (prune (enemiesPhase (effectsPhase (coinsPhase g)))) = pendulumX g \<and>
   pendulumRotation (prune (enemiesPhase (effectsPhase (coinsPhase g)))) = pendulumRotation g \<and>
   lastPendulumTicks (prune (enemiesPhase (effectsPhase (coinsPhase g)))) = lastPendulumTicks g"
proof -
  obtain cs effs sc where c: "coinsPhase g = g\<lparr>coins := cs, coinHitEffects := effs, score := sc\<rparr>"
    using coinsPhase_frame by blast
  obtain es where e:
    "enemiesPhase (effectsPhase (coinsPhase g)) = (effectsPhase (coinsPhase g))\<lparr>enemies := es\<rparr> \<or>
     enemiesPhase (effectsPhase (coinsPhase g)) =
       (effectsPhase (coinsPhase g))\<lparr>mode := GameModeGameOver, ticksFromModeStart := 0, enemies := es\<rparr>"
    using enemiesPhase_frame by blast
  from e show ?thesis
    by (auto simp: c prune_def effectsPhase_def)
qed

lemma UpdatePlaying_SomeD:
  assumes "UpdatePlaying ops inp g = Some g'"
  obtains g1 where "spawn ops (physics inp g) = Some g1"
    and "collide ops inp g = Some (enemiesPhase (effectsPhase (coinsPhase g1)))"
    and "g' = prune (enemiesPhase (effectsPhase (coinsPhase g1)))"
  using assms by (auto simp: UpdatePlaying_def collide_def split: option.splits)

lemma constRand_sel [simp]:
  "rand_Int (constRand n u) s = (n, s)"
  "rand_Float64 (constRand n u) s = (u, s)"
  "rand_NormFloat64 (constRand n u) s = (0, s)"
  "rand_New (constRand n u) seed = ()"
  by (simp_all add: constRand_def)

lemma spawnDraw_constRand_1 [simp]: "spawnDraw (constRand (Suc 0) u) t s = Some (None, s)"
  by (simp add: spawnDraw_def enemyAppearanceRate_def)

section \<open>The round trip between screen and polar coordinates\<close>

lemma sqrt_factor:
  assumes "x \<noteq> 0"
  shows "sqrt (x * x + y * y) = \<bar>x\<bar> * sqrt (1 + (y / x)\<^sup>2)"
proof -
  have "x * x + y * y = x\<^sup>2 * (1 + (y / x)\<^sup>2)"
    using assms by (simp add: power2_eq_square field_simps)
  then show ?thesis
    by (simp add: real_sqrt_mult)
qed

lemma sqrt_one_plus_nonzero: "sqrt (1 + (t::real)\<^sup>2) \<noteq> 0"
  by (metis add_nonneg_pos less_numeral_extra(1) order_less_irrefl real_sqrt_gt_zero
      zero_le_power2 add.commute)

lemma atan2_cos: "sqrt (x * x + y * y) * cos (atan2 y x) = x"
proof (cases "x = 0")
  case True
  then show ?thesis by (simp add: atan2_def)
next
  case False
  then show ?thesis
    using sqrt_one_plus_nonzero [of "y / x"] by (auto simp: atan2_def sqrt_factor cos_arctan)
qed

lemma atan2_sin: "sqrt (x * x + y * y) * sin (atan2 y x) = y"
proof (cases "x = 0")
  case True
  then show ?thesis by (auto simp: atan2_def)
next
  case False
  then show ?thesis
    using sqrt_one_plus_nonzero [of "y / x"] by (auto simp: atan2_def sqrt_factor sin_arctan)
qed

lemma toScreen_fromScreen: "toScreen (fromScreen x y) = (x, y)"
proof -
  define a where "a = x - circleX"
  define b where "b = (y - circleY) / circleVerticalScale"
  have fs: "fromScreen x y = \<lparr>pc_r = sqrt (a * a + b * b), pc_theta = atan2 b a\<rparr>"
    by (simp add: fromScreen_def Let_def a_def b_def)
  have "b * circleVerticalScale + circleY = y"
    by (simp add: b_def circleVerticalScale_def field_simps)
  moreover have "a + circleX = x"
    by (simp add: a_def)
  ultimately show ?thesis
    by (simp add: fs toScreen_def Let_def atan2_cos atan2_sin)
qed

section \<open>The loops in closed form\<close>

lemma coinBody_eq:
  "coinBody g c =
     (c\<lparr>coin_hit := coin_hit c \<or> hitTest g (coin_pos c) (coin_r c),
        coin_ticks := coin_ticks c + 1,
        coin_pos := move (coin_mover c) (coin_ticks c + 1) (coin_pos c)\<rparr>,
      g\<lparr>coinHitEffects := coinHitEffects g @
           map (\<lambda>c. \<lparr>eff_ticks = 0, eff_pos = coin_pos c, eff_gain = coinGain (coin_r c)\<rparr>)
             (filter (\<lambda>c. hitTest g (coin_pos c) (coin_r c)) [c]),
         score := score g +
           sum_list (map (\<lambda>c. coinGain (coin_r c))
             (filter (\<lambda>c. hitTest g (coin_pos c) (coin_r c)) [c]))\<rparr>)"
  by (simp add: coinBody_def Let_def)

lemma coinsLoop_eq:
  "coinsLoop g cs =
     (map (\<lambda>c. c\<lparr>coin_hit := coin_hit c \<or> hitTest g (coin_pos c) (coin_r c),
                  coin_ticks := coin_ticks c + 1,
                  coin_pos := move (coin_mover c) (coin_ticks c + 1) (coin_pos c)\<rparr>) cs,
      g\<lparr>coinHitEffects := coinHitEffects g @
           map (\<lambda>c. \<lparr>eff_ticks = 0, eff_pos = coin_pos c, eff_gain = coinGain (coin_r c)\<rparr>)
             (filter (\<lambda>c. hitTest g (coin_pos c) (coin_r c)) cs),
         score := score g +
           sum_list (map (\<lambda>c. coinGain (coin_r c))
             (filter (\<lambda>c. hitTest g (coin_pos c) (coin_r c)) cs))\<rparr>)"
proof (induction cs arbitrary: g)
  case Nil
  show ?case by simp
next
  case (Cons c cs)
  show ?case
    by (cases "hitTest g (coin_pos c) (coin_r c)") (simp_all add: coinBody_eq Cons.IH add.assoc)
qed

lemma coinsPhase_eq:
  "coinsPhase g =
     g\<lparr>coinHitEffects := coinHitEffects g @
          map (\<lambda>c. \<lparr>eff_ticks = 0, eff_pos = coin_pos c, eff_gain = coinGain (coin_r c)\<rparr>)
            (filter (\<lambda>c. hitTest g (coin_pos c) (coin_r c)) (coins g)),
       score := score g +
          sum_list (map (\<lambda>c. coinGain (coin_r c))
            (filter (\<lambda>c. hitTest g (coin_pos c) (coin_r c)) (coins g))),
       coins := map (\<lambda>c. c\<lparr>coin_hit := coin_hit c \<or> hitTest g (coin_pos c) (coin_r c),
                  coin_ticks := coin_ticks c + 1,
                  coin_pos := move (coin_mover c) (coin_ticks c + 1) (coin_pos c)\<rparr>) (coins g)\<rparr>"
  by (simp add: coinsPhase_def coinsLoop_eq)

lemma enemiesLoop_eq:
  "enemiesLoop g es =
     (map enemyAdvance (takeWhile (\<lambda>e. \<not> hitTest g (enemy_pos e) (enemy_r e)) es) @
        dropWhile (\<lambda>e. \<not> hitTest g (enemy_pos e) (enemy_r e)) es,
      if \<exists>e \<in> set es. hitTest g (enemy_pos e) (enemy_r e)
      then setNextMode GameModeGameOver g else g)"
  by (induction es) auto

lemma enemiesPhase_eq:
  "enemiesPhase g =
     (if \<exists>e \<in> set (enemies g). hitTest g (enemy_pos e) (enemy_r e)
      then setNextMode GameModeGameOver g else g)
     \<lparr>enemies := map enemyAdvance
          (takeWhile (\<lambda>e. \<not> hitTest g (enemy_pos e) (enemy_r e)) (enemies g)) @
        dropWhile (\<lambda>e. \<not> hitTest g (enemy_pos e) (enemy_r e)) (enemies g)\<rparr>"
  by (simp add: enemiesPhase_def enemiesLoop_eq)

lemma hitTest_late [simp]:
  "hitTest (effectsPhase (coinsPhase g)) p rad = hitTest g p rad"
  by (simp add: hitTest_def effectsPhase_def coinsPhase_eq)

lemma hitTest_specHit: "hitTest g p rad = specHit g p rad"
  by (simp add: hitTest_def specHit_def squaredDistance_def planePoint_def)

lemma spawnCoins_0:
  "spawnCoins 0 pos d cs = cs @
     map (\<lambda>(dl, rad). \<lparr>coin_ticks = 0, coin_pos = pos,
                         coin_mover = \<lparr>mv_delay = dl, mv_delta = d\<rparr>,
                         coin_r = rad, coin_hit = False\<rparr>)
       [(20, 10), (40, 10), (60, 10), (80, 7), (100, 7), (120, 7)]"
  by simp

lemma sampleY_constRand [simp]:
  "sampleY (constRand n (3 / 4)) s = Some (715 / 2, s)"
  by (subst sampleY.simps) (simp add: screenHeight_def circleY_def)

lemma spawnDraw_constRand_0:
  "spawnDraw (constRand 0 (3 / 4)) t s = Some (Some (- 50, 715 / 2, 1), s)"
  by (simp add: spawnDraw_def Let_def)

lemma spawn_constRand_1 [simp]: "spawn (constRand (Suc 0) u) g = Some g"
  by (simp add: spawn_def)

lemma physics_playingGame_480:
  "physics idle (playingGame 480 x cs es) =
     (playingGame 480 220 cs es)\<lparr>lastPendulumTicks := 480\<rparr>"
  by (simp add: physics_def reinject_def swing_def rotateFrame_def holdInput_def Let_def
      playingGame_def idle_def pendulumAmplitude_def)

lemma effects_coins_fields [simp]:
  "mode (effectsPhase (coinsPhase g)) = mode g"
  "enemies (effectsPhase (coinsPhase g)) = enemies g"
  "ticksFromModeStart (effectsPhase (coinsPhase g)) = ticksFromModeStart g"
  "random (effectsPhase (coinsPhase g)) = random g"
  "coins (effectsPhase (coinsPhase g)) = coins (coinsPhase g)"
  "score (effectsPhase (coinsPhase g)) = score (coinsPhase g)"
  by (simp_all add: effectsPhase_def coinsPhase_eq)

lemma enemiesPhase_fields [simp]:
  "coins (enemiesPhase g) = coins g"
  "coinHitEffects (enemiesPhase g) = coinHitEffects g"
  "score (enemiesPhase g) = score g"
  "random (enemiesPhase g) = random g"
  by (simp_all add: enemiesPhase_eq setNextMode_def)

lemma enemiesPhase_mode:
  "mode (enemiesPhase g) =
     (if \<exists>e \<in> set (enemies g). hitTest g (enemy_pos e) (enemy_r e)
      then GameModeGameOver else mode g)"
  by (simp add: enemiesPhase_eq setNextMode_def)

lemma enemiesPhase_enemies:
  "enemies (enemiesPhase g) =
     map enemyAdvance (takeWhile (\<lambda>e. \<not> hitTest g (enemy_pos e) (enemy_r e)) (enemies g)) @
       dropWhile (\<lambda>e. \<not> hitTest g (enemy_pos e) (enemy_r e)) (enemies g)"
  by (simp add: enemiesPhase_eq setNextMode_def)

lemma coinsPhase_coins:
  "coins (coinsPhase g) =
     map (\<lambda>c. c\<lparr>coin_hit := coin_hit c \<or> hitTest g (coin_pos c) (coin_r c),
                  coin_ticks := coin_ticks c + 1,
                  coin_pos := move (coin_mover c) (coin_ticks c + 1) (coin_pos c)\<rparr>) (coins g)"
  by (simp add: coinsPhase_eq)

lemma coinsPhase_effects:
  "coinHitEffects (coinsPhase g) =
     coinHitEffects g @
       map (\<lambda>c. \<lparr>eff_ticks = 0, eff_pos = coin_pos c, eff_gain = coinGain (coin_r c)\<rparr>)
         (filter (\<lambda>c. hitTest g (coin_pos c) (coin_r c)) (coins g))"
  by (simp add: coinsPhase_eq)

lemma coinsPhase_score:
  "score (coinsPhase g) =
     score g + sum_list (map (\<lambda>c. coinGain (coin_r c))
                 (filter (\<lambda>c. hitTest g (coin_pos c) (coin_r c)) (coins g)))"
  by (simp add: coinsPhase_eq)

section \<open>Evaluating concrete states\<close>

lemma playingGame_sel [simp]:
  "mode (playingGame t x cs es) = GameModePlaying"
  "ticksFromModeStart (playingGame t x cs es) = t"
  "lastPendulumTicks (playingGame t x cs es) = 0"
  "coins (playingGame t x cs es) = cs"
  "enemies (playingGame t x cs es) = es"
  "coinHitEffects (playingGame t x cs es) = []"
  "score (playingGame t x cs es) = 0"
  "random (playingGame t x cs es) = ()"
  "pendulumX (playingGame t x cs es) = x"
  "pendulumVx (playingGame t x cs es) = 0"
  "pendulumRotation (playingGame t x cs es) = 0"
  "hold (playingGame t x cs es) = False"
  by (simp_all add: playingGame_def)

lemma playingGame_tick [simp]:
  "(playingGame t x cs es)\<lparr>ticksFromModeStart := t'\<rparr> = playingGame t' x cs es"
  by (simp add: playingGame_def)

lemma Update_playingGame:
  "Update ops inp (playingGame t x cs es) = UpdatePlaying ops inp (playingGame (t + 1) x cs es)"
  by (simp add: Update_def Let_def)

lemma specHit_rim: "specHit ((playingGame 480 220 cs es)\<lparr>lastPendulumTicks := 480\<rparr>) \<lparr>pc_r = 220, pc_theta = 0\<rparr> 10"
  by (simp add: specHit_def squaredDistance_def planePoint_def playingGame_def pendulumR_def)

lemma move_centre: "move \<lparr>mv_delay = 0, mv_delta = 1\<rparr> 1 \<lparr>pc_r = 0, pc_theta = 0\<rparr> = \<lparr>pc_r = 1, pc_theta = 0\<rparr>"
  by (simp add: move_def toScreen_def fromScreen_def atan2_def Let_def consts_defs)

section \<open>The state after initialisation\<close>

lemma initialize_sel [simp]:
  "mode (initialize ops now g) = GameModeTitle"
  "ticksFromModeStart (initialize ops now g) = 0"
  "score (initialize ops now g) = 0"
  "hold (initialize ops now g) = False"
  "pendulumX (initialize ops now g) = 0"
  "pendulumVx (initialize ops now g) = 0"
  "pendulumRotation (initialize ops now g) = 0"
  "coins (initialize ops now g) = []"
  "coinHitEffects (initialize ops now g) = []"
  "enemies (initialize ops now g) = []"
  "lastPendulumTicks (initialize ops now g) = 0"
  "fixedRandomSeed (initialize ops now g) = fixedRandomSeed g"
  by (simp_all add: initialize_def Let_def setNextMode_def split: prod.splits)

section \<open>Seeds, clocks and runs\<close>

lemma initialize_seeded:
  assumes "fixedRandomSeed g1 = fixedRandomSeed g2" and "fixedRandomSeed g1 \<noteq> 0"
  shows "initialize ops now1 g1 = initialize ops now2 g2"
  using assms
  by (cases g1, cases g2) (simp add: initialize_def Let_def setNextMode_def split: prod.splits)

lemma holdInput_touch:
  assumes "isJustTouched a = isJustTouched b" and "isJustReleased a = isJustReleased b"
  shows "holdInput a g = holdInput b g"
  using assms by (simp add: holdInput_def)

lemma Update_clock:
  assumes "fixedRandomSeed g \<noteq> 0"
    and "isJustTouched a = isJustTouched b" and "isJustReleased a = isJustReleased b"
  shows "Update ops a g = Update ops b g"
proof (cases "mode g")
  case GameModeTitle
  then show ?thesis using assms(2) by (simp add: Update_def Let_def)
next
  case GameModePlaying
  then show ?thesis
    by (simp add: Update_def Let_def UpdatePlaying_def collide_def physics_def
        holdInput_touch [OF assms(2,3)])
next
  case GameModeGameOver
  let ?g0 = "g\<lparr>ticksFromModeStart := ticksFromModeStart g + 1\<rparr>"
  have "initialize ops (unixNow a) ?g0 = initialize ops (unixNow b) ?g0"
    using assms(1) by (intro initialize_seeded) simp_all
  then show ?thesis
    using GameModeGameOver assms(2) by (simp add: Update_def Let_def)
qed

lemma late_phases_seed:
  "fixedRandomSeed (prune (enemiesPhase (effectsPhase (coinsPhase g)))) = fixedRandomSeed g"
proof -
  obtain cs effs sc where c: "coinsPhase g = g\<lparr>coins := cs, coinHitEffects := effs, score := sc\<rparr>"
    using coinsPhase_frame by blast
  obtain es where e:
    "enemiesPhase (effectsPhase (coinsPhase g)) = (effectsPhase (coinsPhase g))\<lparr>enemies := es\<rparr> \<or>
     enemiesPhase (effectsPhase (coinsPhase g)) =
       (effectsPhase (coinsPhase g))\<lparr>mode := GameModeGameOver, ticksFromModeStart := 0, enemies := es\<rparr>"
    using enemiesPhase_frame by blast
  from e show ?thesis
    by (auto simp: c prune_def effectsPhase_def)
qed

lemma physics_seed [simp]: "fixedRandomSeed (physics inp g) = fixedRandomSeed g"
  by (simp add: physics_def reinject_def swing_def rotateFrame_def holdInput_def Let_def)

lemma Update_seed:
  assumes "Update ops inp g = Some g'"
  shows "fixedRandomSeed g' = fixedRandomSeed g"
proof (cases "mode g")
  case GameModeTitle
  then show ?thesis
    using assms by (auto simp: Update_def Let_def setNextMode_def split: if_splits)
next
  case GameModePlaying
  let ?g0 = "g\<lparr>ticksFromModeStart := ticksFromModeStart g + 1\<rparr>"
  have "UpdatePlaying ops inp ?g0 = Some g'"
    using assms GameModePlaying by (simp add: Update_def Let_def)
  then obtain g1 where sp: "spawn ops (physics inp ?g0) = Some g1"
    and g': "g' = prune (enemiesPhase (effectsPhase (coinsPhase g1)))"
    by (rule UpdatePlaying_SomeD)
  obtain s cs es where g1: "g1 = (physics inp ?g0)\<lparr>random := s, coins := cs, enemies := es\<rparr>"
    using spawn_frame [OF sp] by blast
  show ?thesis
    by (simp add: g' late_phases_seed g1)
next
  case GameModeGameOver
  then show ?thesis
    using assms by (auto simp: Update_def Let_def split: if_splits)
qed

lemma run_clock:
  assumes "fixedRandomSeed g \<noteq> 0"
    and "map isJustTouched inps1 = map isJustTouched inps2"
    and "map isJustReleased inps1 = map isJustReleased inps2"
  shows "run ops inps1 g = run ops inps2 g \<and> spawnTrace ops inps1 g = spawnTrace ops inps2 g"
  using assms
proof (induction inps1 arbitrary: inps2 g)
  case Nil
  then show ?case by simp
next
  case (Cons a as)
  then obtain b bs where i2: "inps2 = b # bs" by (cases inps2) auto
  have t: "isJustTouched a = isJustTouched b" "isJustReleased a = isJustReleased b"
    and m: "map isJustTouched as = map isJustTouched bs" "map isJustReleased as = map isJustReleased bs"
    using Cons.prems(2,3) by (simp_all add: i2)
  have u: "Update ops a g = Update ops b g"
    using Update_clock [OF Cons.prems(1) t] .
  show ?case
  proof (cases "Update ops b g")
    case None
    then show ?thesis by (simp add: i2 u)
  next
    case (Some g1)
    have "fixedRandomSeed g1 \<noteq> 0"
      using Update_seed [OF Some] Cons.prems(1) by simp
    from Cons.IH [OF this m] show ?thesis
      by (simp add: i2 u Some)
  qed
qed

lemma countRand_sel [simp]:
  "rand_Int countRand s = (s, Suc s)"
  "rand_Float64 countRand s = (3 / 4, s)"
  "rand_NormFloat64 countRand s = (0, s)"
  "rand_New countRand seed = unat seed"
  by (simp_all add: countRand_def)

lemma drawStars_countRand [simp]: "snd (drawStars countRand len n s) = s"
  by (induction n arbitrary: s) (simp_all add: case_prod_beta)

lemma sampleY_countRand [simp]: "sampleY countRand s = Some (715 / 2, s)"
  by (subst sampleY.simps) (simp add: screenHeight_def circleY_def)

lemma initialize_random_countRand:
  "random (initialize countRand now g) = unat (if fixedRandomSeed g \<noteq> 0 then fixedRandomSeed g else now)"
proof -
  have "random (initialize countRand now g) =
        snd (drawStars countRand (max screenWidth screenHeight * (12 / 10)) 500
          (unat (if fixedRandomSeed g \<noteq> 0 then fixedRandomSeed g else now)))"
    by (simp add: initialize_def Let_def setNextMode_def case_prod_beta)
  then show ?thesis by simp
qed

lemma start_trace:
  "spawnTrace countRand [press, idle] (initialize countRand now (bootGame seed)) =
     [None, (case spawnDraw countRand 1 (unat (if seed \<noteq> 0 then seed else now)) of
               Some (Some ev, s) \<Rightarrow> Some (1, ev) | _ \<Rightarrow> None)]"
proof -
  let ?a = "initialize countRand now (bootGame seed)"
  let ?a1 = "setNextMode GameModePlaying (?a\<lparr>ticksFromModeStart := 1, pendulumX := pendulumAmplitude\<rparr>)"
  have u: "Update countRand press ?a = Some ?a1"
    by (simp add: Update_def Let_def press_def)
  have r: "random ?a1 = unat (if seed \<noteq> 0 then seed else now)"
    by (simp add: setNextMode_def initialize_random_countRand bootGame_def)
  have e0: "spawnEvent countRand ?a = None"
    by (simp add: spawnEvent_def)
  have e1: "spawnEvent countRand ?a1 =
      (case spawnDraw countRand 1 (unat (if seed \<noteq> 0 then seed else now)) of
               Some (Some ev, s) \<Rightarrow> Some (1, ev) | _ \<Rightarrow> None)"
  proof -
    have t1: "ticksFromModeStart ?a1 + 1 = 1" "mode ?a1 = GameModePlaying"
      by (simp_all add: setNextMode_def)
    show ?thesis
      unfolding spawnEvent_def r t1 by simp
  qed
  show ?thesis
    by (simp add: u e0 e1 split: option.splits)
qed

section \<open>The score of a play\<close>




lemma physics_coins [simp]:
  "coins (physics inp g) = coins g" "score (physics inp g) = score g"
  by (simp_all add: physics_def reinject_def swing_def rotateFrame_def holdInput_def Let_def)













section \<open>The claims\<close>

text \<open>
  Claim C1. In Playing mode, when the tick counter \<open>t\<close> of the current update (the counter
  after its increment) satisfies \<open>(t - lastPendulumTicks) % 480 = 0\<close>, then right after
  the pendulum update of that tick \<open>pendulumVx\<close> is 0, \<open>pendulumX\<close> is the amplitude 220 and
  \<open>lastPendulumTicks\<close> is \<open>t\<close>, whatever the touch input is; the later phases of the tick
  keep the three values, so they also hold in the state \<open>Update\<close> returns.
\<close>

theorem C1_pendulum_reinjection:
  assumes "mode g = GameModePlaying"
    and "(ticksFromModeStart g + 1 - lastPendulumTicks g) mod 480 = 0"
  shows "(let t = ticksFromModeStart g + 1;
              p = physics inp (g\<lparr>ticksFromModeStart := t\<rparr>)
          in pendulumVx p = 0 \<and> pendulumX p = 220 \<and> lastPendulumTicks p = t) \<and>
         (\<forall>g'. Update ops inp g = Some g' \<longrightarrow>
            pendulumVx g' = 0 \<and> pendulumX g' = 220 \<and>
            lastPendulumTicks g' = ticksFromModeStart g + 1)"
proof -
  define g0 where "g0 = g\<lparr>ticksFromModeStart := ticksFromModeStart g + 1\<rparr>"
  have cond: "(ticksFromModeStart g0 - lastPendulumTicks g0) mod 480 = 0"
    using assms(2) by (simp add: g0_def)
  have ph: "pendulumVx (physics inp g0) = 0 \<and> pendulumX (physics inp g0) = 220 \<and>
            lastPendulumTicks (physics inp g0) = ticksFromModeStart g + 1"
    using physics_reset [OF cond, of inp] by (simp add: g0_def)
  have "pendulumVx g' = 0 \<and> pendulumX g' = 220 \<and>
        lastPendulumTicks g' = ticksFromModeStart g + 1"
    if u: "Update ops inp g = Some g'" for g'
  proof -
    have "UpdatePlaying ops inp g0 = Some g'"
      using assms(1) u by (simp add: Update_def g0_def Let_def)
    then obtain g1 where sp: "spawn ops (physics inp g0) = Some g1"
      and g': "g' = prune (enemiesPhase (effectsPhase (coinsPhase g1)))"
      by (rule UpdatePlaying_SomeD)
    obtain s cs es where g1: "g1 = (physics inp g0)\<lparr>random := s, coins := cs, enemies := es\<rparr>"
      using spawn_frame [OF sp] by blast
    show ?thesis
      using ph by (simp add: g' late_phases_pendulum g1)
  qed
  then show ?thesis
    using ph by (simp add: Let_def g0_def)
qed

theorem C1_pendulum_reinjection_witness:
  "mode (playingGame 479 5 [] []) = GameModePlaying \<and>
   (\<exists>g'. Update (constRand 1 (3 / 4)) idle (playingGame 479 5 [] []) = Some g' \<and>
      pendulumVx g' = 0 \<and> pendulumX g' = 220 \<and> lastPendulumTicks g' = 480)"
proof -
  have m: "mode (playingGame 479 5 [] []) = GameModePlaying"
    by (simp add: playingGame_def)
  have c: "(ticksFromModeStart (playingGame 479 5 [] []) + 1 -
            lastPendulumTicks (playingGame 479 5 [] [])) mod 480 = 0"
    by (simp add: playingGame_def)
  obtain g' where u: "Update (constRand 1 (3 / 4)) idle (playingGame 479 5 [] []) = Some g'"
    by (simp add: Update_def UpdatePlaying_def collide_def spawn_def playingGame_def Let_def)
  have t: "ticksFromModeStart (playingGame 479 5 [] []) + 1 = 480"
    by (simp add: playingGame_def)
  show ?thesis
    using C1_pendulum_reinjection [OF m c, of idle "constRand 1 (3 / 4)"] m u t by simp
qed

text \<open>
  Claim C2. On a Playing tick, with \<open>g1\<close> the state when collision detection starts (after
  the physics and the spawner), every coin's hit flag is set exactly when the squared
  Euclidean distance between the bob \<open>(pendulumX cos rot, pendulumX sin rot)\<close> and the coin
  \<open>(r cos \<theta>, r sin \<theta>)\<close>, in the unscaled polar plane, is strictly below the square of
  the sum of the radii (a flag already set stays set); the game is over after the tick's
  collision phase exactly when some enemy satisfies the same condition; and an entity
  of positive radius whose point coincides with the bob always passes the test of the
  code, so such a coin gets its flag and such an enemy ends the game.
\<close>

theorem C2_collision_test:
  assumes "mode g = GameModePlaying" and "spawn ops (physics inp g) = Some g1"
  shows "\<exists>g2. collide ops inp g = Some g2 \<and>
           map coin_hit (coins g2) =
             map (\<lambda>c. coin_hit c \<or> specHit g1 (coin_pos c) (coin_r c)) (coins g1) \<and>
           (mode g2 = GameModeGameOver \<longleftrightarrow>
              (\<exists>e \<in> set (enemies g1). specHit g1 (enemy_pos e) (enemy_r e))) \<and>
           (\<forall>p rad. planePoint (pc_r p) (pc_theta p) =
                       planePoint (pendulumX g1) (pendulumRotation g1) \<and> 0 < rad
                     \<longrightarrow> hitTest g1 p rad) \<and>
           (\<forall>i < length (coins g1).
              planePoint (pc_r (coin_pos (coins g1 ! i))) (pc_theta (coin_pos (coins g1 ! i))) =
                planePoint (pendulumX g1) (pendulumRotation g1) \<and> 0 < coin_r (coins g1 ! i)
              \<longrightarrow> coin_hit (coins g2 ! i)) \<and>
           (\<forall>e \<in> set (enemies g1).
              planePoint (pc_r (enemy_pos e)) (pc_theta (enemy_pos e)) =
                planePoint (pendulumX g1) (pendulumRotation g1) \<and> 0 < enemy_r e
              \<longrightarrow> mode g2 = GameModeGameOver)"
proof -
  obtain s cs es where g1: "g1 = (physics inp g)\<lparr>random := s, coins := cs, enemies := es\<rparr>"
    using spawn_frame [OF assms(2)] by blast
  have m: "mode g1 = GameModePlaying"
    using assms(1) by (simp add: g1)
  let ?g2 = "enemiesPhase (effectsPhase (coinsPhase g1))"
  have a: "collide ops inp g = Some ?g2"
    using assms(2) by (simp add: collide_def)
  have b: "map coin_hit (coins ?g2) =
             map (\<lambda>c. coin_hit c \<or> specHit g1 (coin_pos c) (coin_r c)) (coins g1)"
    by (simp add: coinsPhase_coins hitTest_specHit comp_def)
  have c: "mode ?g2 = GameModeGameOver \<longleftrightarrow>
             (\<exists>e \<in> set (enemies g1). specHit g1 (enemy_pos e) (enemy_r e))"
  proof -
    have "mode ?g2 = GameModeGameOver \<longleftrightarrow>
            (\<exists>e \<in> set (enemies g1). hitTest g1 (enemy_pos e) (enemy_r e))"
      using m by (simp add: enemiesPhase_mode)
    then show ?thesis by (simp add: hitTest_specHit)
  qed
  have d: "specHit g1 p rad"
    if "planePoint (pc_r p) (pc_theta p) = planePoint (pendulumX g1) (pendulumRotation g1)"
      and "0 < rad" for p rad
    using that by (simp add: specHit_def squaredDistance_def pendulumR_def)
  have d': "\<forall>p rad. planePoint (pc_r p) (pc_theta p) =
                planePoint (pendulumX g1) (pendulumRotation g1) \<and> 0 < rad
              \<longrightarrow> hitTest g1 p rad"
    using d by (simp add: hitTest_specHit)
  have e: "coin_hit (coins ?g2 ! i)"
    if "i < length (coins g1)"
      and "planePoint (pc_r (coin_pos (coins g1 ! i))) (pc_theta (coin_pos (coins g1 ! i))) =
             planePoint (pendulumX g1) (pendulumRotation g1)"
      and "0 < coin_r (coins g1 ! i)" for i
  proof -
    have "coin_hit (coins ?g2 ! i) = map coin_hit (coins ?g2) ! i"
      using that(1) by (simp add: coinsPhase_coins)
    also have "\<dots> = (coin_hit (coins g1 ! i) \<or>
                     specHit g1 (coin_pos (coins g1 ! i)) (coin_r (coins g1 ! i)))"
      unfolding b using that(1) by simp
    finally show ?thesis
      using d [OF that(2,3)] by simp
  qed
  have f: "mode ?g2 = GameModeGameOver"
    if "e \<in> set (enemies g1)"
      and "planePoint (pc_r (enemy_pos e)) (pc_theta (enemy_pos e)) =
             planePoint (pendulumX g1) (pendulumRotation g1)"
      and "0 < enemy_r e" for e
    using c d [OF that(2,3)] that(1) by blast
  show ?thesis
    using a b c d' e f by blast
qed

theorem C2_collision_test_witness:
  "mode (playingGame 480 5 [rimCoin] [rimEnemy]) = GameModePlaying \<and>
   (\<exists>g2. collide (constRand 1 (3 / 4)) idle (playingGame 480 5 [rimCoin] [rimEnemy]) = Some g2 \<and>
      map coin_hit (coins g2) = [True] \<and> mode g2 = GameModeGameOver)"
proof -
  let ?g = "playingGame 480 5 [rimCoin] [rimEnemy]"
  let ?g1 = "(playingGame 480 220 [rimCoin] [rimEnemy])\<lparr>lastPendulumTicks := 480\<rparr>"
  have m: "mode ?g = GameModePlaying"
    by (simp add: playingGame_def)
  have s: "spawn (constRand 1 (3 / 4)) (physics idle ?g) = Some ?g1"
    by (simp add: physics_playingGame_480)
  have cs: "coins ?g1 = [rimCoin]" and es: "enemies ?g1 = [rimEnemy]"
    by (simp_all add: playingGame_def)
  have h1: "specHit ?g1 (coin_pos rimCoin) (coin_r rimCoin)"
    using specHit_rim by (simp add: rimCoin_def)
  have h2: "specHit ?g1 (enemy_pos rimEnemy) (enemy_r rimEnemy)"
    using specHit_rim by (simp add: rimEnemy_def)
  show ?thesis
    using C2_collision_test [OF m s] m h1 h2 by (auto simp: cs es)
qed

text \<open>
  Claim C3. Every spawn event (the spawner drew a side \<open>x\<close>, a height \<open>y\<close> and a delta
  \<open>d\<close>) appends exactly 6 coins, the i-th with delay \<open>(i + 1) * 20\<close>, that is 20, 40, 60
  with radius 10 and 80, 100, 120 with radius 7, and exactly 1 enemy with delay 0 and
  radius 10, all at the spawn point \<open>fromScreen x y\<close> and with the mover delta \<open>d\<close>.
\<close>

theorem C3_spawn_group:
  assumes "spawnDraw ops (ticksFromModeStart g) (random g) = Some (Some (x, y, d), s)"
  shows "\<exists>g'. spawn ops g = Some g' \<and>
           coins g' = coins g @
             map (\<lambda>(dl, rad). \<lparr>coin_ticks = 0, coin_pos = fromScreen x y,
                                 coin_mover = \<lparr>mv_delay = dl, mv_delta = d\<rparr>,
                                 coin_r = rad, coin_hit = False\<rparr>)
               [(20, 10), (40, 10), (60, 10), (80, 7), (100, 7), (120, 7)] \<and>
           enemies g' = enemies g @
             [\<lparr>enemy_ticks = 0, enemy_pos = fromScreen x y,
               enemy_mover = \<lparr>mv_delay = 0, mv_delta = d\<rparr>, enemy_r = 10\<rparr>] \<and>
           length (coins g') = length (coins g) + 6 \<and>
           length (enemies g') = length (enemies g) + 1"
  using assms by (simp add: spawn_def Let_def spawnCoins_0 del: spawnCoins.simps)

theorem C3_spawn_group_witness:
  "\<exists>g'. spawn (constRand 0 (3 / 4)) (playingGame 1 5 [] []) = Some g' \<and>
      map (\<lambda>c. mv_delay (coin_mover c)) (coins g') = [20, 40, 60, 80, 100, 120] \<and>
      map coin_r (coins g') = [10, 10, 10, 7, 7, 7] \<and>
      map (\<lambda>c. mv_delta (coin_mover c)) (coins g') = [1, 1, 1, 1, 1, 1] \<and>
      map (\<lambda>e. (mv_delay (enemy_mover e), mv_delta (enemy_mover e), enemy_r e)) (enemies g') = [(0, 1, 10)]"
proof -
  have d: "spawnDraw (constRand 0 (3 / 4)) (ticksFromModeStart (playingGame 1 5 [] []))
             (random (playingGame 1 5 [] [])) = Some (Some (- 50, 715 / 2, 1), ())"
    by (simp add: spawnDraw_constRand_0)
  have e: "coins (playingGame 1 5 [] []) = []" "enemies (playingGame 1 5 [] []) = []"
    by (simp_all add: playingGame_def)
  show ?thesis
    using C3_spawn_group [OF d] by (auto simp: e)
qed

text \<open>
  Claim C4. The loop over the coins sets the hit flag of every coin the bob hits, appends
  for each of them, in order, a CoinHitEffect at the coin's polar position carrying the
  gain of its radius tier (at most 5: 100, at most 7: 300, otherwise 1000), and adds
  these gains to the score; a coin of radius 10 gains 1000 and one of radius 7 gains 300.
\<close>

theorem C4_coin_hit:
  "map coin_hit (coins (coinsPhase g)) =
     map (\<lambda>c. coin_hit c \<or> hitTest g (coin_pos c) (coin_r c)) (coins g) \<and>
   coinHitEffects (coinsPhase g) =
     coinHitEffects g @
       map (\<lambda>c. \<lparr>eff_ticks = 0, eff_pos = coin_pos c,
                   eff_gain = (if coin_r c \<le> 5 then 100 else if coin_r c \<le> 7 then 300 else 1000)\<rparr>)
         (filter (\<lambda>c. hitTest g (coin_pos c) (coin_r c)) (coins g)) \<and>
   score (coinsPhase g) =
     score g +
       sum_list (map (\<lambda>c. if coin_r c \<le> 5 then 100 else if coin_r c \<le> 7 then 300 else 1000)
         (filter (\<lambda>c. hitTest g (coin_pos c) (coin_r c)) (coins g))) \<and>
   coinGain 10 = 1000 \<and> coinGain 7 = 300"
  by (simp add: coinsPhase_coins coinsPhase_effects coinsPhase_score comp_def coinGain_def)

theorem C4_coin_hit_witness:
  "map coin_hit (coins (coinsPhase (playingGame 480 220 [rimCoin] []))) = [True] \<and>
   coinHitEffects (coinsPhase (playingGame 480 220 [rimCoin] [])) =
     [\<lparr>eff_ticks = 0, eff_pos = \<lparr>pc_r = 220, pc_theta = 0\<rparr>, eff_gain = 1000\<rparr>] \<and>
   score (coinsPhase (playingGame 480 220 [rimCoin] [])) = 1000"
proof -
  have h: "hitTest (playingGame 480 220 [rimCoin] []) (coin_pos rimCoin) (coin_r rimCoin)"
    by (simp add: hitTest_def playingGame_def rimCoin_def pendulumR_def)
  have c: "coins (playingGame 480 220 [rimCoin] []) = [rimCoin]"
    "coinHitEffects (playingGame 480 220 [rimCoin] []) = []"
    "score (playingGame 480 220 [rimCoin] []) = 0"
    by (simp_all add: playingGame_def)
  have r: "coin_pos rimCoin = \<lparr>pc_r = 220, pc_theta = 0\<rparr>" "coin_r rimCoin = 10"
    by (simp_all add: rimCoin_def)
  show ?thesis
    using C4_coin_hit [of "playingGame 480 220 [rimCoin] []"] h by (simp add: c r)
qed

text \<open>
  Claim C6, as stated, fails: the loop over the enemies is left at the first enemy the
  bob hits, so on the tick that ends the game the colliding enemy is neither aged nor
  moved. Here the only enemy sits on the bob; after \<open>Update\<close> the game is over and the
  enemy is unchanged, its age still 0.
\<close>

theorem C6_entities_advance_counterexample:
  "\<exists>g'. Update (constRand 1 (3 / 4)) idle (playingGame 479 5 [] [rimEnemy]) = Some g' \<and>
      mode g' = GameModeGameOver \<and> enemies g' = [rimEnemy] \<and>
      map enemy_ticks (enemies g') \<noteq> map (\<lambda>e. enemy_ticks e + 1) [rimEnemy]"
proof -
  let ?g1 = "(playingGame 480 220 [] [rimEnemy])\<lparr>lastPendulumTicks := 480\<rparr>"
  have h: "hitTest ?g1 (enemy_pos rimEnemy) (enemy_r rimEnemy)"
    by (simp add: hitTest_def rimEnemy_def pendulumR_def)
  have c: "coinsPhase ?g1 = ?g1"
    by (simp add: coinsPhase_def)
  have e: "effectsPhase ?g1 = ?g1"
    by (simp add: effectsPhase_def)
  have en: "enemiesPhase ?g1 = setNextMode GameModeGameOver ?g1"
    using h by (simp add: enemiesPhase_eq) (simp add: setNextMode_def)
  have o: "onScreen (enemy_pos rimEnemy)"
    by (simp add: onScreen_def toScreen_def rimEnemy_def consts_defs)
  have p: "prune (setNextMode GameModeGameOver ?g1) = setNextMode GameModeGameOver ?g1"
    using o by (simp add: prune_def setNextMode_def)
  have u: "Update (constRand 1 (3 / 4)) idle (playingGame 479 5 [] [rimEnemy]) =
        Some (setNextMode GameModeGameOver ?g1)"
    by (simp add: Update_playingGame UpdatePlaying_def collide_def physics_playingGame_480 c e en p)
  show ?thesis
  proof (intro exI conjI)
    show "Update (constRand 1 (3 / 4)) idle (playingGame 479 5 [] [rimEnemy]) =
        Some (setNextMode GameModeGameOver ?g1)"
      by (rule u)
  qed (simp_all add: setNextMode_def rimEnemy_def)
qed

text \<open>
  Claim C6, amended. On every Playing tick, with \<open>g1\<close> the state after the physics and the
  spawner and \<open>g2\<close> the state before the filters: every coin has its age advanced by 1
  and its Mover applied (with the new age); every coin-hit effect, those created on
  this tick included, has its age advanced by 1; every enemy before the first enemy
  the bob hits (every enemy, when it hits none) has its age advanced by 1 and its Mover
  applied; the colliding enemy and the enemies after it are left as they are.
\<close>

theorem C6_entities_advance:
  assumes "spawn ops (physics inp g) = Some g1"
  shows "\<exists>g2. collide ops inp g = Some g2 \<and>
           map coin_ticks (coins g2) = map (\<lambda>c. coin_ticks c + 1) (coins g1) \<and>
           map coin_pos (coins g2) =
             map (\<lambda>c. move (coin_mover c) (coin_ticks c + 1) (coin_pos c)) (coins g1) \<and>
           map eff_ticks (coinHitEffects g2) =
             map (\<lambda>e. eff_ticks e + 1) (coinHitEffects g1) @
               replicate (length (filter (\<lambda>c. hitTest g1 (coin_pos c) (coin_r c)) (coins g1))) 1 \<and>
           enemies g2 =
             map (\<lambda>e. e\<lparr>enemy_ticks := enemy_ticks e + 1,
                         enemy_pos := move (enemy_mover e) (enemy_ticks e + 1) (enemy_pos e)\<rparr>)
               (takeWhile (\<lambda>e. \<not> hitTest g1 (enemy_pos e) (enemy_r e)) (enemies g1)) @
             dropWhile (\<lambda>e. \<not> hitTest g1 (enemy_pos e) (enemy_r e)) (enemies g1)"
proof -
  let ?g2 = "enemiesPhase (effectsPhase (coinsPhase g1))"
  have a: "collide ops inp g = Some ?g2"
    using assms by (simp add: collide_def)
  have adv: "enemyAdvance = (\<lambda>e. e\<lparr>enemy_ticks := enemy_ticks e + 1,
                         enemy_pos := move (enemy_mover e) (enemy_ticks e + 1) (enemy_pos e)\<rparr>)"
    by (rule ext) (simp add: enemyAdvance_def Let_def)
  have b: "map coin_ticks (coins ?g2) = map (\<lambda>c. coin_ticks c + 1) (coins g1)"
    by (simp add: coinsPhase_coins comp_def)
  have c: "map coin_pos (coins ?g2) =
             map (\<lambda>c. move (coin_mover c) (coin_ticks c + 1) (coin_pos c)) (coins g1)"
    by (simp add: coinsPhase_coins comp_def)
  have d: "map eff_ticks (coinHitEffects ?g2) =
             map (\<lambda>e. eff_ticks e + 1) (coinHitEffects g1) @
               replicate (length (filter (\<lambda>c. hitTest g1 (coin_pos c) (coin_r c)) (coins g1))) 1"
    by (simp add: effectsPhase_def coinsPhase_effects comp_def map_replicate_const)
  have e: "enemies ?g2 =
             map enemyAdvance
               (takeWhile (\<lambda>e. \<not> hitTest g1 (enemy_pos e) (enemy_r e)) (enemies g1)) @
             dropWhile (\<lambda>e. \<not> hitTest g1 (enemy_pos e) (enemy_r e)) (enemies g1)"
    by (simp add: enemiesPhase_enemies)
  show ?thesis
    using a b c d e unfolding adv by blast
qed

theorem C6_entities_advance_witness:
  "\<exists>g2. collide (constRand 1 (3 / 4)) idle (playingGame 480 5 [rimCoin] [centreEnemy, rimEnemy]) = Some g2 \<and>
      map coin_ticks (coins g2) = [1] \<and>
      map enemy_ticks (enemies g2) = [1, 0] \<and>
      map enemy_pos (enemies g2) = [\<lparr>pc_r = 1, pc_theta = 0\<rparr>, \<lparr>pc_r = 220, pc_theta = 0\<rparr>]"
proof -
  let ?g = "playingGame 480 5 [rimCoin] [centreEnemy, rimEnemy]"
  let ?g1 = "(playingGame 480 220 [rimCoin] [centreEnemy, rimEnemy])\<lparr>lastPendulumTicks := 480\<rparr>"
  have s: "spawn (constRand 1 (3 / 4)) (physics idle ?g) = Some ?g1"
    by (simp add: physics_playingGame_480)
  have h1: "\<not> hitTest ?g1 (enemy_pos centreEnemy) (enemy_r centreEnemy)"
    by (simp add: hitTest_def centreEnemy_def pendulumR_def)
  have h2: "hitTest ?g1 (enemy_pos rimEnemy) (enemy_r rimEnemy)"
    by (simp add: hitTest_def rimEnemy_def pendulumR_def)
  have c: "coin_ticks rimCoin = 0"
    by (simp add: rimCoin_def)
  have e: "enemy_ticks centreEnemy = 0" "enemy_ticks rimEnemy = 0"
    "enemy_pos centreEnemy = \<lparr>pc_r = 0, pc_theta = 0\<rparr>"
    "enemy_mover centreEnemy = \<lparr>mv_delay = 0, mv_delta = 1\<rparr>"
    "enemy_pos rimEnemy = \<lparr>pc_r = 220, pc_theta = 0\<rparr>"
    by (simp_all add: centreEnemy_def rimEnemy_def)
  show ?thesis
    using C6_entities_advance [OF s] h1 h2 by (auto simp: c e move_centre)
qed

text \<open>
  Claim C7. At the end of a Playing tick, with \<open>g2\<close> the state before the filters: a coin
  is kept exactly when its screen coordinates lie strictly within
  \<open>(-100, 640 + 100) \<times> (-100, 480 + 100)\<close> and its hit flag is unset, an enemy exactly when
  its screen coordinates lie within the same bounds, a coin-hit effect exactly when
  its age is below 60; so a coin or enemy whose screen x exceeds \<open>640 + 100\<close> is not in
  the collections the tick returns.
\<close>

theorem C7_pruning:
  assumes "collide ops inp g = Some g2"
  shows "\<exists>g'. UpdatePlaying ops inp g = Some g' \<and>
           coins g' =
             filter (\<lambda>c. withinMargin (toScreen (coin_pos c)) \<and> \<not> coin_hit c) (coins g2) \<and>
           enemies g' = filter (\<lambda>e. withinMargin (toScreen (enemy_pos e))) (enemies g2) \<and>
           coinHitEffects g' = filter (\<lambda>e. unat (eff_ticks e) < 60) (coinHitEffects g2) \<and>
           (\<forall>c \<in> set (coins g2). 640 + 100 < fst (toScreen (coin_pos c)) \<longrightarrow> c \<notin> set (coins g')) \<and>
           (\<forall>e \<in> set (enemies g2). 640 + 100 < fst (toScreen (enemy_pos e)) \<longrightarrow> e \<notin> set (enemies g'))"
proof -
  have on: "onScreen p = withinMargin (toScreen p)" for p
    by (cases "toScreen p") (simp add: onScreen_def withinMargin_def consts_defs)
  have lt: "(w < 60) = (unat w < 60)" for w :: "64 word"
    by (simp add: word_less_nat_alt)
  have u: "UpdatePlaying ops inp g = Some (prune g2)"
    using assms by (simp add: UpdatePlaying_def)
  have a: "coins (prune g2) =
             filter (\<lambda>c. withinMargin (toScreen (coin_pos c)) \<and> \<not> coin_hit c) (coins g2)"
    by (simp add: prune_def on)
  have b: "enemies (prune g2) = filter (\<lambda>e. withinMargin (toScreen (enemy_pos e))) (enemies g2)"
    by (simp add: prune_def on)
  have c: "coinHitEffects (prune g2) = filter (\<lambda>e. unat (eff_ticks e) < 60) (coinHitEffects g2)"
    by (simp add: prune_def lt)
  have d: "\<forall>c \<in> set (coins g2). 640 + 100 < fst (toScreen (coin_pos c)) \<longrightarrow> c \<notin> set (coins (prune g2))"
    by (auto simp: a withinMargin_def)
  have e: "\<forall>e \<in> set (enemies g2). 640 + 100 < fst (toScreen (enemy_pos e)) \<longrightarrow> e \<notin> set (enemies (prune g2))"
    by (auto simp: b withinMargin_def)
  show ?thesis
    using u a b c d e by blast
qed

theorem C7_pruning_witness:
  "\<exists>g2 g'. collide (constRand 1 (3 / 4)) idle (playingGame 480 5 [rimCoin, farCoin, centreCoin] []) = Some g2 \<and>
      UpdatePlaying (constRand 1 (3 / 4)) idle (playingGame 480 5 [rimCoin, farCoin, centreCoin] []) = Some g' \<and>
      map coin_pos (coins g2) =
        [\<lparr>pc_r = 220, pc_theta = 0\<rparr>, \<lparr>pc_r = 500, pc_theta = 0\<rparr>, \<lparr>pc_r = 0, pc_theta = 0\<rparr>] \<and>
      map coin_pos (coins g') = [\<lparr>pc_r = 0, pc_theta = 0\<rparr>] \<and>
      map eff_ticks (coinHitEffects g') = [1]"
proof -
  let ?g = "playingGame 480 5 [rimCoin, farCoin, centreCoin] []"
  let ?g1 = "(playingGame 480 220 [rimCoin, farCoin, centreCoin] [])\<lparr>lastPendulumTicks := 480\<rparr>"
  let ?g2 = "enemiesPhase (effectsPhase (coinsPhase ?g1))"
  have col: "collide (constRand 1 (3 / 4)) idle ?g = Some ?g2"
    by (simp add: collide_def physics_playingGame_480)
  have h: "hitTest ?g1 (coin_pos rimCoin) (coin_r rimCoin)"
    "\<not> hitTest ?g1 (coin_pos farCoin) (coin_r farCoin)"
    "\<not> hitTest ?g1 (coin_pos centreCoin) (coin_r centreCoin)"
    by (simp_all add: hitTest_def rimCoin_def farCoin_def centreCoin_def pendulumR_def)
  have cs: "coins ?g2 =
      [rimCoin\<lparr>coin_hit := True, coin_ticks := 1\<rparr>, farCoin\<lparr>coin_ticks := 1\<rparr>,
       centreCoin\<lparr>coin_ticks := 1\<rparr>]"
    using h by (simp add: coinsPhase_coins) (simp add: rimCoin_def farCoin_def centreCoin_def move_def)
  have es: "coinHitEffects ?g2 =
      [\<lparr>eff_ticks = 1, eff_pos = \<lparr>pc_r = 220, pc_theta = 0\<rparr>, eff_gain = 1000\<rparr>]"
    using h by (simp add: effectsPhase_def coinsPhase_effects) (simp add: rimCoin_def coinGain_def)
  have w: "\<not> withinMargin (toScreen \<lparr>pc_r = 500, pc_theta = 0\<rparr>)"
    "withinMargin (toScreen \<lparr>pc_r = 0, pc_theta = 0\<rparr>)"
    by (simp_all add: withinMargin_def toScreen_def consts_defs)
  from C7_pruning [OF col] obtain g' where
    u: "UpdatePlaying (constRand 1 (3 / 4)) idle ?g = Some g'"
    and a: "coins g' = filter (\<lambda>c. withinMargin (toScreen (coin_pos c)) \<and> \<not> coin_hit c) (coins ?g2)"
    and b: "coinHitEffects g' = filter (\<lambda>e. unat (eff_ticks e) < 60) (coinHitEffects ?g2)"
    by blast
  have a': "map coin_pos (coins g') = [\<lparr>pc_r = 0, pc_theta = 0\<rparr>]"
    unfolding a cs using w by (simp add: rimCoin_def farCoin_def centreCoin_def)
  have b': "map eff_ticks (coinHitEffects g') = [1]"
    unfolding b es by simp
  have c': "map coin_pos (coins ?g2) =
        [\<lparr>pc_r = 220, pc_theta = 0\<rparr>, \<lparr>pc_r = 500, pc_theta = 0\<rparr>, \<lparr>pc_r = 0, pc_theta = 0\<rparr>]"
    unfolding cs by (simp add: rimCoin_def farCoin_def centreCoin_def)
  show ?thesis
    by (rule exI [of _ ?g2], rule exI [of _ g'], intro conjI) (fact col u c' a' b')+
qed

text \<open>
  Claim C8. Converting a screen point to polar coordinates with \<open>fromScreen\<close> and back
  with \<open>toScreen\<close> gives the point again. In real arithmetic the round trip is exact, for
  every point of the plane, the centre of the field included.
\<close>

theorem C8_screen_polar_roundtrip:
  "toScreen (fromScreen x y) = (x, y)"
  by (rule toScreen_fromScreen)

text \<open>
  Claim C9, as stated, fails for the fixed seed 0: \<open>initialize\<close> takes a fixed seed of 0 as
  "no seed configured" and seeds the generator from the clock. Two runs with the fixed
  seed 0, started at clock values 180 and 181 and given the same input (a press, then
  nothing), are shown with the counting generator: the first spawns on the first Playing
  tick, the second does not.
\<close>

theorem C9_seeded_determinism_counterexample:
  "fixedRandomSeed (bootGame 0) = fixedRandomSeed (bootGame 0) \<and>
   spawnTrace countRand [press, idle] (initialize countRand 180 (bootGame 0)) =
     [None, Some (1, 690, 715 / 2, - 1)] \<and>
   spawnTrace countRand [press, idle] (initialize countRand 181 (bootGame 0)) = [None, None] \<and>
   spawnTrace countRand [press, idle] (initialize countRand 180 (bootGame 0)) \<noteq>
   spawnTrace countRand [press, idle] (initialize countRand 181 (bootGame 0))"
proof -
  have a: "spawnDraw countRand 1 180 = Some (Some (690, 715 / 2, - 1), 182)"
    by (simp add: spawnDraw_def Let_def enemyAppearanceRate_def screenWidth_def)
  have b: "spawnDraw countRand 1 181 = Some (None, 182)"
    by (simp add: spawnDraw_def Let_def enemyAppearanceRate_def)
  have ta: "spawnTrace countRand [press, idle] (initialize countRand 180 (bootGame 0)) =
     [None, Some (1, 690, 715 / 2, - 1)]"
    using start_trace [of 180 0] by (simp add: a del: spawnTrace.simps)
  have tb: "spawnTrace countRand [press, idle] (initialize countRand 181 (bootGame 0)) = [None, None]"
    using start_trace [of 181 0] by (simp add: b del: spawnTrace.simps)
  show ?thesis
    by (simp add: ta tb del: spawnTrace.simps)
qed

text \<open>
  Claim C9, amended. Two runs initialised with the same nonzero fixed random seed and
  given the same sequence of touch input produce, over any number of ticks, the same
  sequence of spawn events (trigger tick, side, height and mover delta) and the same
  states, whatever the two clocks read and whatever the generator is.
\<close>

theorem C9_seeded_determinism:
  assumes "fixedRandomSeed g1 = fixedRandomSeed g2" and "fixedRandomSeed g1 \<noteq> 0"
    and "map isJustTouched inps1 = map isJustTouched inps2"
    and "map isJustReleased inps1 = map isJustReleased inps2"
  shows "spawnTrace ops inps1 (initialize ops now1 g1) = spawnTrace ops inps2 (initialize ops now2 g2) \<and>
         run ops inps1 (initialize ops now1 g1) = run ops inps2 (initialize ops now2 g2)"
proof -
  have e: "initialize ops now1 g1 = initialize ops now2 g2"
    using assms(1,2) by (rule initialize_seeded)
  have "fixedRandomSeed (initialize ops now2 g2) \<noteq> 0"
    using assms(1,2) by simp
  from run_clock [OF this assms(3,4)] show ?thesis
    by (simp add: e)
qed

theorem C9_seeded_determinism_witness:
  "spawnTrace countRand [atClock 7 press, atClock 8 idle] (initialize countRand 180 (bootGame 360)) =
     [None, Some (1, 690, 715 / 2, - 1)] \<and>
   spawnTrace countRand [atClock 7 press, atClock 8 idle] (initialize countRand 180 (bootGame 360)) =
   spawnTrace countRand [press, idle] (initialize countRand 181 (bootGame 360))"
proof -
  have s: "fixedRandomSeed (bootGame 360) = fixedRandomSeed (bootGame 360)"
    "fixedRandomSeed (bootGame 360) \<noteq> 0"
    by (simp_all add: bootGame_def)
  have t: "map isJustTouched [atClock 7 press, atClock 8 idle] = map isJustTouched [press, idle]"
    "map isJustReleased [atClock 7 press, atClock 8 idle] = map isJustReleased [press, idle]"
    by (simp_all add: atClock_def)
  have a: "spawnDraw countRand 1 360 = Some (Some (690, 715 / 2, - 1), 362)"
    by (simp add: spawnDraw_def Let_def enemyAppearanceRate_def screenWidth_def)
  have "spawnTrace countRand [press, idle] (initialize countRand 181 (bootGame 360)) =
     [None, Some (1, 690, 715 / 2, - 1)]"
    using start_trace [of 181 360] by (simp add: a del: spawnTrace.simps)
  then show ?thesis
    using C9_seeded_determinism [OF s t, of countRand 180 181] by (simp del: spawnTrace.simps)
qed




end
